theory Spec2Isabelle
  imports Main
begin

section \<open>Python values used by the scraper\<close>

text \<open>
  A Python \<^verbatim>\<open>str\<close> is modelled as a \<^typ>\<open>string\<close>; a \<^typ>\<open>char\<close> stands for a code
  point below 256. The helpers below are the string methods the script calls, on that
  range of code points.
\<close>

text \<open>\<^verbatim>\<open>str.isspace\<close> for one character: TAB, LF, VT, FF, CR, FS, GS, RS, US, space,
  NEL and the no-break space.\<close>

definition py_isspace :: "char \<Rightarrow> bool" where
  "py_isspace c = (c \<in> set [CHR 0x09, CHR 0x0A, CHR 0x0B, CHR 0x0C, CHR 0x0D,
                             CHR 0x1C, CHR 0x1D, CHR 0x1E, CHR 0x1F, CHR 0x20,
                             CHR 0x85, CHR 0xA0])"

text \<open>\<^verbatim>\<open>s.strip()\<close>\<close>

definition py_strip :: "string \<Rightarrow> string" where
  "py_strip s = rev (dropWhile py_isspace (rev (dropWhile py_isspace s)))"

text \<open>\<^verbatim>\<open>s.lower()\<close>: the letters A-Z and the upper-case letters of Latin-1 move up by 32.\<close>

definition py_lower_char :: "char \<Rightarrow> char" where
  "py_lower_char c =
     (let n = (of_char c :: nat)
      in if (65 \<le> n \<and> n \<le> 90) \<or> (192 \<le> n \<and> n \<le> 222 \<and> n \<noteq> 215)
         then char_of (n + 32) else c)"

definition py_lower :: "string \<Rightarrow> string" where
  "py_lower s = map py_lower_char s"

text \<open>\<^verbatim>\<open>s.split(sep, 1)\<close> for a one-character separator: at most one split, at the first
  occurrence of the separator.\<close>

fun py_split1 :: "char \<Rightarrow> string \<Rightarrow> string list" where
  "py_split1 sep [] = [[]]"
| "py_split1 sep (c # cs) =
     (if c = sep then [[], cs]
      else (case py_split1 sep cs of
              [] \<Rightarrow> [[c]]
            | h # t \<Rightarrow> (c # h) # t))"

text \<open>\<^verbatim>\<open>" ".join(xs)\<close>\<close>

fun py_join_space :: "string list \<Rightarrow> string" where
  "py_join_space [] = []"
| "py_join_space [x] = x"
| "py_join_space (x # y # ys) = x @ CHR '' '' # py_join_space (y # ys)"

text \<open>\<^verbatim>\<open>str(n)\<close> for an integer: decimal digits, a minus sign for a negative number.\<close>

definition digit_char :: "nat \<Rightarrow> char" where
  "digit_char d = char_of (48 + d)"

function py_str_nat :: "nat \<Rightarrow> string" where
  "py_str_nat n = (if n < 10 then [digit_char n] else py_str_nat (n div 10) @ [digit_char (n mod 10)])"
  by pat_completeness auto
termination
  by (relation "measure id") auto

declare py_str_nat.simps [simp del]

definition py_str_int :: "int \<Rightarrow> string" where
  "py_str_int i = (if i < 0 then CHR ''-'' # py_str_nat (nat (- i)) else py_str_nat (nat i))"

subsection \<open>\<^verbatim>\<open>int(s)\<close> on a string\<close>

text \<open>
  \<^verbatim>\<open>int(s)\<close> in base 10 skips white space (TAB, LF, VT, FF, CR, space, and NEL and the
  no-break space, which it first turns into spaces) on both sides, reads one optional
  sign, then decimal digits in which single underscores may separate digits. Anything
  else, an empty digit sequence, or more than 4300 digits (the interpreter's default
  limit) raises \<^verbatim>\<open>ValueError\<close>, which is the value \<^term>\<open>None\<close> here.
\<close>

definition int_isspace :: "char \<Rightarrow> bool" where
  "int_isspace c = (c \<in> set [CHR 0x09, CHR 0x0A, CHR 0x0B, CHR 0x0C, CHR 0x0D, CHR 0x20,
                              CHR 0x85, CHR 0xA0])"

definition is_digit :: "char \<Rightarrow> bool" where
  "is_digit c = (48 \<le> (of_char c :: nat) \<and> (of_char c :: nat) \<le> 57)"

definition digit_val :: "char \<Rightarrow> nat" where
  "digit_val c = of_char c - 48"

text \<open>Underscores are well placed: none first, none last, no two in a row.\<close>

fun underscores_ok :: "string \<Rightarrow> bool" where
  "underscores_ok [] = False"
| "underscores_ok [c] = (c \<noteq> CHR ''_'')"
| "underscores_ok (c # d # r) =
     (c \<noteq> CHR ''_'' \<and> (if d = CHR ''_'' then r \<noteq> [] \<and> underscores_ok r
                         else underscores_ok (d # r)))"

definition digits_value :: "string \<Rightarrow> nat" where
  "digits_value ds = foldl (\<lambda>a c. 10 * a + digit_val c) 0 ds"

definition int_of_str :: "string \<Rightarrow> int option" where
  "int_of_str s =
     (let s1 = dropWhile int_isspace s;
          neg = (case s1 of c # _ \<Rightarrow> c = CHR ''-'' | [] \<Rightarrow> False);
          s2 = (case s1 of c # r \<Rightarrow> (if c = CHR ''+'' \<or> c = CHR ''-'' then r else s1) | [] \<Rightarrow> s1);
          body = takeWhile (\<lambda>c. is_digit c \<or> c = CHR ''_'') s2;
          rest = dropWhile (\<lambda>c. is_digit c \<or> c = CHR ''_'') s2;
          ds = filter is_digit body
      in if underscores_ok body \<and> length ds \<le> 4300 \<and> dropWhile int_isspace rest = []
         then Some (if neg then - int (digits_value ds) else int (digits_value ds))
         else None)"

subsection \<open>Cells of the stock table\<close>

text \<open>
  The \<^verbatim>\<open>QTY\<close> column holds Python objects: the strings the extractor read from the
  page, and the integers \<^verbatim>\<open>derive_manual_skus\<close> appends.
\<close>

datatype pyval = PyStr string | PyInt int

text \<open>\<^verbatim>\<open>str(v)\<close>, as \<^verbatim>\<open>astype(str)\<close> and \<^verbatim>\<open>to_csv\<close> apply it to a cell.\<close>

fun py_str :: "pyval \<Rightarrow> string" where
  "py_str (PyStr s) = s"
| "py_str (PyInt i) = py_str_int i"

text \<open>
  \<^verbatim>\<open>
  def try_parse_int(val) -> Optional[int]:
      try:
          return int(val)
      except Exception:
          return None
  \<close>
\<close>

fun try_parse_int :: "pyval \<Rightarrow> int option" where
  "try_parse_int (PyStr s) = int_of_str s"
| "try_parse_int (PyInt i) = Some i"

section \<open>The stock table and the derived SKUs\<close>

text \<open>
  The data frame of \<^verbatim>\<open>main\<close> and \<^verbatim>\<open>derive_manual_skus\<close> has the two columns
  \<^verbatim>\<open>Code\<close> and \<^verbatim>\<open>QTY\<close>; it is modelled by the list of its rows, in index order.
\<close>

record stock_row =
  Code :: string
  QTY :: pyval

type_synonym stock_table = "stock_row list"

text \<open>\<^verbatim>\<open>df.loc[df['Code'] == code, 'QTY']\<close>: the quantities of the rows whose code is
  \<open>code\<close>, in row order.\<close>

definition loc_qty :: "stock_table \<Rightarrow> string \<Rightarrow> pyval list" where
  "loc_qty df code = map QTY (filter (\<lambda>r. Code r = code) df)"

text \<open>
  \<^verbatim>\<open>
  def derive_manual_skus(df):
      df = df.copy()
      qty_5l = df.loc[df['Code'] == 'ACGEL5L', 'QTY']
      qty_250 = df.loc[df['Code'] == 'ACGEL250', 'QTY']
      if not qty_5l.empty:
          q_5l = try_parse_int(qty_5l.values[0])
          if q_5l is not None:
              df = pd.concat([df, pd.DataFrame([{'Code': 'ACGEL5L+', 'QTY': q_5l}])], ...)
      if not qty_250.empty:
          q_250 = try_parse_int(qty_250.values[0])
          if q_250 is not None:
              derived = [{'Code': 'ACGEL250(2)', 'QTY': q_250 // 2},
                         {'Code': 'ACGEL250(4)', 'QTY': q_250 // 4},
                         {'Code': 'ACGEL250(12)', 'QTY': q_250 // 12}]
              df = pd.concat([df, pd.DataFrame(derived)], ignore_index=True)
      return df
  \<close>
  Python's \<^verbatim>\<open>//\<close> on integers rounds towards minus infinity, as \<open>div\<close> on \<^typ>\<open>int\<close>
  does.
\<close>

definition derive_manual_skus :: "stock_table \<Rightarrow> stock_table" where
  "derive_manual_skus df0 =
     (let qty_5l = loc_qty df0 ''ACGEL5L'';
          qty_250 = loc_qty df0 ''ACGEL250'';
          df1 = (case qty_5l of
                   [] \<Rightarrow> df0
                 | v # _ \<Rightarrow>
                     (case try_parse_int v of
                        None \<Rightarrow> df0
                      | Some q_5l \<Rightarrow> df0 @ [\<lparr>Code = ''ACGEL5L+'', QTY = PyInt q_5l\<rparr>]));
          df2 = (case qty_250 of
                   [] \<Rightarrow> df1
                 | v # _ \<Rightarrow>
                     (case try_parse_int v of
                        None \<Rightarrow> df1
                      | Some q_250 \<Rightarrow>
                          df1 @ [\<lparr>Code = ''ACGEL250(2)'', QTY = PyInt (q_250 div 2)\<rparr>,
                                 \<lparr>Code = ''ACGEL250(4)'', QTY = PyInt (q_250 div 4)\<rparr>,
                                 \<lparr>Code = ''ACGEL250(12)'', QTY = PyInt (q_250 div 12)\<rparr>]))
      in df2)"

text \<open>The quantity the lookup for \<open>code\<close> hands to the derivation: the parsed quantity of
  the first row with that code (\<^verbatim>\<open>values[0]\<close>), if there is such a row and it parses.\<close>

definition trigger_qty :: "stock_table \<Rightarrow> string \<Rightarrow> int option" where
  "trigger_qty df code = (case loc_qty df code of [] \<Rightarrow> None | v # _ \<Rightarrow> try_parse_int v)"

text \<open>The rows each branch appends, given what its lookup found.\<close>

definition derived_5l :: "int option \<Rightarrow> stock_table" where
  "derived_5l p = (case p of None \<Rightarrow> [] | Some q \<Rightarrow> [\<lparr>Code = ''ACGEL5L+'', QTY = PyInt q\<rparr>])"

definition derived_250 :: "int option \<Rightarrow> stock_table" where
  "derived_250 p =
     (case p of
        None \<Rightarrow> []
      | Some q \<Rightarrow> [\<lparr>Code = ''ACGEL250(2)'', QTY = PyInt (q div 2)\<rparr>,
                   \<lparr>Code = ''ACGEL250(4)'', QTY = PyInt (q div 4)\<rparr>,
                   \<lparr>Code = ''ACGEL250(12)'', QTY = PyInt (q div 12)\<rparr>])"

section \<open>The row extractor\<close>

subsection \<open>The parsed page\<close>

text \<open>
  \<^verbatim>\<open>BeautifulSoup(html, 'html.parser')\<close> is the library's work; the extractor is modelled
  on the tree it builds. A tag has its name, the tokens of its \<^verbatim>\<open>class\<close> attribute (the
  parser splits that attribute at white space; no token when the attribute is absent),
  its other attributes and its contents. \<open>NavigableString\<close> is a text node;
  \<open>Comment\<close> stands for the string nodes \<^verbatim>\<open>get_text\<close> leaves out (comments,
  declarations, script and style text).
\<close>

datatype node =
    Tag string "string list" "(string \<times> string) list" "node list"
  | NavigableString string
  | Comment string

text \<open>\<^verbatim>\<open>tag.descendants\<close>: every node below the tag, in document order.\<close>

fun descendants :: "node \<Rightarrow> node list" where
  "descendants (Tag name cls attrs kids) = concat (map (\<lambda>k. k # descendants k) kids)"
| "descendants (NavigableString s) = []"
| "descendants (Comment s) = []"

text \<open>
  A search string matches a \<^verbatim>\<open>class\<close> attribute when it equals one of the tokens, or
  equals the tokens joined by single spaces.
\<close>

definition class_matches :: "string \<Rightarrow> string list \<Rightarrow> bool" where
  "class_matches wanted cls = (wanted \<in> set cls \<or> py_join_space cls = wanted)"

text \<open>The filter of \<^verbatim>\<open>find_all('div', {'class': wanted})\<close>.\<close>

fun is_div_with_class :: "string \<Rightarrow> node \<Rightarrow> bool" where
  "is_div_with_class wanted (Tag name cls attrs kids) = (name = ''div'' \<and> class_matches wanted cls)"
| "is_div_with_class wanted (NavigableString s) = False"
| "is_div_with_class wanted (Comment s) = False"

definition is_container :: "node \<Rightarrow> bool" where
  "is_container =
     is_div_with_class ''product_form_list container is-justtify-space-between has-no-side-gutter content-for-list''"

definition is_header :: "node \<Rightarrow> bool" where
  "is_header = is_div_with_class ''column header one-fifth medium-down--one-half''"

definition is_column :: "node \<Rightarrow> bool" where
  "is_column = is_div_with_class ''column''"

fun is_input :: "node \<Rightarrow> bool" where
  "is_input (Tag name cls attrs kids) = (name = ''input'')"
| "is_input (NavigableString s) = False"
| "is_input (Comment s) = False"

text \<open>\<^verbatim>\<open>tag.find_all(...)\<close>: the matching descendants, in document order.\<close>

definition find_all :: "(node \<Rightarrow> bool) \<Rightarrow> node \<Rightarrow> node list" where
  "find_all p n = filter p (descendants n)"

text \<open>
  \<^verbatim>\<open>for header in row.find_all(...): header.decompose()\<close>: every matching descendant
  is taken out of the tree, with all that it contains.
\<close>

fun decompose_all :: "(node \<Rightarrow> bool) \<Rightarrow> node \<Rightarrow> node" where
  "decompose_all p (Tag name cls attrs kids) =
     Tag name cls attrs (map (decompose_all p) (filter (\<lambda>k. \<not> p k) kids))"
| "decompose_all p (NavigableString s) = NavigableString s"
| "decompose_all p (Comment s) = Comment s"

text \<open>
  \<^verbatim>\<open>rows = soup.find_all('div', {'class': 'product_form_list container ...'})\<close> is
  computed once, and the loop over it then removes header blocks from the shared tree.
  A container that lies inside a header block of an enclosing container is destroyed
  (left without contents) by the enclosing container's iteration, which comes first in
  document order; when the loop reaches it, it has no column. \<open>find_rows\<close> lists the
  containers that still have their contents when the loop reaches them; \<open>inside\<close>
  tells whether an enclosing container has been met.
\<close>

fun find_rows :: "bool \<Rightarrow> node \<Rightarrow> node list" where
  "find_rows inside (Tag name cls attrs kids) =
     concat (map (\<lambda>k. if inside \<and> is_header k then []
                       else (if is_container k then [k] else [])
                            @ find_rows (inside \<or> is_container k) k) kids)"
| "find_rows inside (NavigableString s) = []"
| "find_rows inside (Comment s) = []"

text \<open>\<^verbatim>\<open>tag.get_text(strip=True)\<close>: the text nodes below the tag, each one stripped,
  the empty ones dropped, the others joined with nothing between them.\<close>

fun all_strings :: "node list \<Rightarrow> string list" where
  "all_strings [] = []"
| "all_strings (NavigableString s # ns) = s # all_strings ns"
| "all_strings (Tag name cls attrs kids # ns) = all_strings ns"
| "all_strings (Comment s # ns) = all_strings ns"

definition get_text_strip :: "node \<Rightarrow> string" where
  "get_text_strip n = concat (filter (\<lambda>s. s \<noteq> []) (map py_strip (all_strings (descendants n))))"

text \<open>\<^verbatim>\<open>tag.get('max', 'Unknown')\<close>\<close>

fun get_max :: "node \<Rightarrow> string" where
  "get_max (Tag name cls attrs kids) = (case map_of attrs ''max'' of None \<Rightarrow> ''Unknown'' | Some v \<Rightarrow> v)"
| "get_max (NavigableString s) = ''Unknown''"
| "get_max (Comment s) = ''Unknown''"

subsection \<open>One group of five columns\<close>

text \<open>
  \<^verbatim>\<open>
  qty_col = columns[i + 3] if (i + 3) < len(columns) else None
  max_quantity = (qty_col.find('input').get('max', 'Unknown')
                  if qty_col and qty_col.find('input') else 'Unknown')
  code_text = columns[i].get_text(strip=True) if i < len(columns) else ""
  code = code_text.split(' ', 1)[0] if code_text else ""
  if code:
      out.append({'Code': code, 'QTY': max_quantity})
  \<close>
  Nothing in this body raises on a parsed tree, so the \<^verbatim>\<open>except\<close> branch, which would
  skip the group, is never taken.
\<close>

definition max_quantity :: "node list \<Rightarrow> nat \<Rightarrow> string" where
  "max_quantity columns i =
     (if i + 3 < length columns
      then (case find_all is_input (columns ! (i + 3)) of
              [] \<Rightarrow> ''Unknown''
            | inp # _ \<Rightarrow> get_max inp)
      else ''Unknown'')"

definition code_of_text :: "string \<Rightarrow> string" where
  "code_of_text code_text =
     (if code_text \<noteq> [] then (case py_split1 CHR '' '' code_text of [] \<Rightarrow> [] | h # _ \<Rightarrow> h) else [])"

definition group_rows :: "node list \<Rightarrow> nat \<Rightarrow> stock_table" where
  "group_rows columns i =
     (let code_text = (if i < length columns then get_text_strip (columns ! i) else []);
          code = code_of_text code_text
      in if code \<noteq> [] then [\<lparr>Code = code, QTY = PyStr (max_quantity columns i)\<rparr>] else [])"

text \<open>\<^verbatim>\<open>for i in range(0, len(columns), 5)\<close>, from index \<open>i\<close> on.\<close>

function group_loop :: "node list \<Rightarrow> nat \<Rightarrow> stock_table" where
  "group_loop columns i =
     (if i < length columns then group_rows columns i @ group_loop columns (i + 5) else [])"
  by pat_completeness auto
termination
  by (relation "measure (\<lambda>(columns, i). length columns - i)") auto

declare group_loop.simps [simp del]

text \<open>The columns the loop sees in one container, and the rows that container adds
  to \<^verbatim>\<open>out\<close>.\<close>

definition row_columns :: "node \<Rightarrow> node list" where
  "row_columns row = find_all is_column (decompose_all is_header row)"

definition container_rows :: "node \<Rightarrow> stock_table" where
  "container_rows row = group_loop (row_columns row) 0"

definition parse_stock_rows :: "node \<Rightarrow> stock_table" where
  "parse_stock_rows soup = concat (map container_rows (find_rows False soup))"

text \<open>
  The code as the specification words it: the text of the slot, stripped as a whole and
  cut at the first white-space character.
\<close>

definition spec_code :: "node \<Rightarrow> string" where
  "spec_code n = takeWhile (\<lambda>c. \<not> py_isspace c) (py_strip (concat (all_strings (descendants n))))"

section \<open>The URL source\<close>

text \<open>What the script's calls into its libraries can raise.\<close>

datatype py_error =
    EmptyDataError
  | ParserError
  | OSError
  | KeyError
  | AttributeError
  | RequestException
  | APIError

text \<open>
  The frame \<^verbatim>\<open>pd.read_csv\<close> returns: its columns from left to right, each with its
  name and its cells from the first row down. A missing cell (\<^verbatim>\<open>NaN\<close>, which is what
  the reader makes of an empty field) is \<^term>\<open>None\<close>.
\<close>

type_synonym series = "string option list"

type_synonym url_frame = "(string \<times> series) list"

text \<open>
  The path \<^verbatim>\<open>urls.csv\<close> as the function finds it: absent
  (\<^verbatim>\<open>os.path.exists\<close> is false), or present with the outcome of \<^verbatim>\<open>pd.read_csv\<close>,
  which raises on a file it cannot read as a table (\<^verbatim>\<open>EmptyDataError\<close> on a file
  without any content, for one).
\<close>

datatype csv_path = Absent | Present "py_error + url_frame"

text \<open>\<^verbatim>\<open>c.strip().lower() == "url"\<close>\<close>

definition is_url_column :: "string \<Rightarrow> bool" where
  "is_url_column c = (py_lower (py_strip c) = ''url'')"

text \<open>\<^verbatim>\<open>series.dropna().tolist()\<close>\<close>

fun dropna :: "series \<Rightarrow> string list" where
  "dropna [] = []"
| "dropna (None # vs) = dropna vs"
| "dropna (Some v # vs) = v # dropna vs"

text \<open>
  \<^verbatim>\<open>df[name].dropna().tolist()\<close>. Indexing with a label gives the series of the one
  column of that name; were several columns to carry the name, it would give a frame,
  which has no \<^verbatim>\<open>tolist\<close>. (\<^verbatim>\<open>pd.read_csv\<close> renames repeated header names, so its
  frames have distinct names.)
\<close>

definition column_tolist :: "url_frame \<Rightarrow> string \<Rightarrow> py_error + string list" where
  "column_tolist df name =
     (case filter (\<lambda>col. fst col = name) df of
        [] \<Rightarrow> Inl KeyError
      | [col] \<Rightarrow> Inr (dropna (snd col))
      | _ # _ # _ \<Rightarrow> Inl AttributeError)"

text \<open>
  \<^verbatim>\<open>
  def get_urls_from_local_csv(csv_path = "urls.csv"):
      if not os.path.exists(csv_path):
          return []
      df = pd.read_csv(csv_path)
      col = [c for c in df.columns if c.strip().lower() == "url"]
      return df[col[0]].dropna().tolist() if col else []
  \<close>
\<close>

definition get_urls_from_local_csv :: "csv_path \<Rightarrow> py_error + string list" where
  "get_urls_from_local_csv path =
     (case path of
        Absent \<Rightarrow> Inr []
      | Present (Inl e) \<Rightarrow> Inl e
      | Present (Inr df) \<Rightarrow>
          (let col = filter is_url_column (map fst df)
           in case col of [] \<Rightarrow> Inr [] | c # _ \<Rightarrow> column_tolist df c))"

text \<open>The columns of the file whose name matches, when the file is there and was read.\<close>

fun url_columns :: "csv_path \<Rightarrow> string list" where
  "url_columns Absent = []"
| "url_columns (Present (Inl e)) = []"
| "url_columns (Present (Inr df)) = filter is_url_column (map fst df)"

text \<open>
  \<^verbatim>\<open>
  urls = sheet.col_values(1)
  if urls and urls[0].strip().lower() == "url":
      urls = urls[1:]
  return [u for u in urls if u]
  \<close>
  The argument is the outcome of opening the worksheet and reading its column A.
\<close>

definition get_urls_from_google_sheets :: "py_error + string list \<Rightarrow> py_error + string list" where
  "get_urls_from_google_sheets column_a =
     (case column_a of
        Inl e \<Rightarrow> Inl e
      | Inr urls \<Rightarrow>
          Inr (filter (\<lambda>u. u \<noteq> [])
                 (case urls of [] \<Rightarrow> urls | u # rest \<Rightarrow> if is_url_column u then rest else urls)))"

section \<open>Fetching and the output sink\<close>

text \<open>\<^verbatim>\<open>fetch_html\<close>: any exception of the request becomes \<^verbatim>\<open>None\<close>.\<close>

definition fetch_html :: "(string \<Rightarrow> py_error + string) \<Rightarrow> string \<Rightarrow> string option" where
  "fetch_html get url = (case get url of Inl e \<Rightarrow> None | Inr text \<Rightarrow> Some text)"

text \<open>The calls made on the worksheet, in the order they are made.\<close>

datatype sheet_call =
    BatchClear "string list"
  | Update string "string list list"
  | FormatBold string

text \<open>
  \<^verbatim>\<open>
  sheet.batch_clear(["B2:B", "C2:C"])
  values = list(zip(df["Code"].astype(str).tolist(), df["QTY"].astype(str).tolist()))
  if not values:
      return
  code_col = [["Code"]] + [[v[0]] for v in values]
  qty_col = [["QTY"]] + [[v[1]] for v in values]
  sheet.update("B1:B{}".format(len(code_col)), code_col)
  sheet.update("C1:C{}".format(len(qty_col)), qty_col)
  sheet.format("B1:C1", {"textFormat": {"bold": True}})
  \<close>
  \<open>opened\<close> is the outcome of authorising and opening the worksheet, which comes
  first and may raise; the calls on an opened worksheet are taken to succeed.
\<close>

definition write_to_google_sheets :: "py_error option \<Rightarrow> stock_table \<Rightarrow> py_error + sheet_call list" where
  "write_to_google_sheets opened df =
     (case opened of
        Some e \<Rightarrow> Inl e
      | None \<Rightarrow>
          (let vals = zip (map Code df) (map (\<lambda>r. py_str (QTY r)) df)
           in Inr (BatchClear [''B2:B'', ''C2:C'']
                   # (if vals = [] then []
                      else
                        (let code_col = [''Code''] # map (\<lambda>v. [fst v]) vals;
                             qty_col = [''QTY''] # map (\<lambda>v. [snd v]) vals
                         in [Update (''B1:B'' @ py_str_nat (length code_col)) code_col,
                             Update (''C1:C'' @ py_str_nat (length qty_col)) qty_col,
                             FormatBold ''B1:C1''])))))"

text \<open>
  \<^verbatim>\<open>df.to_csv(out_path, index=False)\<close>: the header line with the column names, then one
  record per row, each cell as \<^verbatim>\<open>str\<close> prints it. The file is modelled by its
  fields; quoting and line ends are the writer's.
\<close>

record csv_file =
  header :: "string list"
  records :: "string list list"

definition to_csv :: "stock_table \<Rightarrow> csv_file" where
  "to_csv df = \<lparr>header = [''Code'', ''QTY''], records = map (\<lambda>r. [Code r, py_str (QTY r)]) df\<rparr>"

section \<open>The run\<close>

text \<open>
  What a run depends on: the toggle, the local file, the worksheet (its column A, and
  whether it opens for writing), the web and the HTML parser.
\<close>

record env =
  USE_SHEETS :: bool
  urls_csv :: csv_path
  column_a :: "py_error + string list"
  sheet_opened :: "py_error option"
  http_get :: "string \<Rightarrow> py_error + string"
  soup_of :: "string \<Rightarrow> node"

text \<open>
  \<^verbatim>\<open>
  for url in urls:
      html = fetch_html(url)
      if html:
          rows = parse_stock_rows(html)
          all_stock_data.extend(rows)
      time.sleep(REQUEST_DELAY_SECS)
  \<close>
\<close>

fun scrape :: "env \<Rightarrow> string list \<Rightarrow> stock_table" where
  "scrape e [] = []"
| "scrape e (url # urls) =
     (case fetch_html (http_get e) url of
        None \<Rightarrow> []
      | Some html \<Rightarrow> if html \<noteq> [] then parse_stock_rows (soup_of e html) else [])
     @ scrape e urls"

text \<open>How a run ends when nothing raises.\<close>

datatype outcome =
    NoUrls
  | WroteCsv csv_file
  | UpdatedSheet "sheet_call list"

text \<open>
  \<^verbatim>\<open>
  def main():
      if USE_SHEETS: urls = get_urls_from_google_sheets()
      else:          urls = get_urls_from_local_csv("urls.csv")
      if not urls:
          print("[INFO] No URLs found. ..."); return
      ... the loop over urls ...
      df = pd.DataFrame(all_stock_data or [], columns=["Code", "QTY"]).dropna(subset=["Code"])
      df = derive_manual_skus(df)
      if USE_SHEETS: write_to_google_sheets(df)
      else:          df.to_csv("output.csv", index=False)
  \<close>
  Every extracted row has a code, so \<^verbatim>\<open>dropna(subset=["Code"])\<close> drops nothing.
\<close>

definition main :: "env \<Rightarrow> py_error + outcome" where
  "main e =
     (case (if USE_SHEETS e then get_urls_from_google_sheets (column_a e)
            else get_urls_from_local_csv (urls_csv e)) of
        Inl err \<Rightarrow> Inl err
      | Inr urls \<Rightarrow>
          if urls = [] then Inr NoUrls
          else
            (let df = derive_manual_skus (scrape e urls)
             in if USE_SHEETS e
                then (case write_to_google_sheets (sheet_opened e) df of
                        Inl err \<Rightarrow> Inl err
                      | Inr calls \<Rightarrow> Inr (UpdatedSheet calls))
                else Inr (WroteCsv (to_csv df))))"

section \<open>Sample inputs\<close>

text \<open>A table with each trigger code twice, the first time with a quantity that does
  not parse.\<close>

definition dup_table :: stock_table where
  "dup_table = [\<lparr>Code = ''ACGEL5L'', QTY = PyStr ''Unknown''\<rparr>,
                \<lparr>Code = ''ACGEL5L'', QTY = PyStr ''7''\<rparr>,
                \<lparr>Code = ''ACGEL250'', QTY = PyStr ''Unknown''\<rparr>,
                \<lparr>Code = ''ACGEL250'', QTY = PyStr ''100''\<rparr>]"

text \<open>Pieces of a page: the document root, a container, a plain column with one text
  node, and a column holding a quantity input.\<close>

definition document :: "node list \<Rightarrow> node" where
  "document kids = Tag ''[document]'' [] [] kids"

definition container_div :: "node list \<Rightarrow> node" where
  "container_div kids =
     Tag ''div'' [''product_form_list'', ''container'', ''is-justtify-space-between'',
                  ''has-no-side-gutter'', ''content-for-list''] [] kids"

definition text_column :: "string \<Rightarrow> node" where
  "text_column s = Tag ''div'' [''column'', ''one-fifth''] [] [NavigableString s]"

definition qty_column :: "string \<Rightarrow> node" where
  "qty_column m =
     Tag ''div'' [''column'', ''one-fifth''] []
       [Tag ''input'' [] [(''type'', ''number''), (''min'', ''0''), (''max'', m)] []]"

text \<open>A container with three columns, the first one with the text of a product.\<close>

definition three_columns :: node where
  "three_columns =
     container_div [text_column ''ABC123 Widget'', text_column ''Blue'', text_column ''1 L'']"

text \<open>One full group: code cell, three cells, the quantity in slot 3.\<close>

definition five_columns :: "node list" where
  "five_columns = [text_column ''ABC123 Widget'', text_column ''Blue'', text_column ''1 L'',
                   qty_column ''15'', text_column ''Add'']"

text \<open>A code cell whose text has a line break, not a space, after the code.\<close>

definition newline_cell :: node where
  "newline_cell = text_column (''ABC123'' @ [CHR 0x0A] @ ''Widget'')"

text \<open>A code cell whose text is spread over two elements with a blank between them.\<close>

definition split_cell :: node where
  "split_cell =
     Tag ''div'' [''column''] []
       [Tag ''b'' [] [] [NavigableString ''ABC123''],
        NavigableString '' '',
        Tag ''span'' [] [] [NavigableString ''Widget'']]"

text \<open>Frames of \<^verbatim>\<open>urls.csv\<close>: one with a \<^verbatim>\<open>link\<close> column only, one with a single
  matching column, one with two matching columns.\<close>

definition link_frame :: url_frame where
  "link_frame = [(''link'', [Some ''https://shop.example/a''])]"

definition one_url_frame :: url_frame where
  "one_url_frame = [(''name'', [Some ''a'', Some ''b'', Some ''c'']),
                    ('' URL '', [Some ''https://shop.example/a'', None, Some ''https://shop.example/c''])]"

definition two_url_frame :: url_frame where
  "two_url_frame = [(''name'', [Some ''a'', Some ''b'']),
                    (''Url'', [Some ''https://shop.example/a'', None]),
                    (''url '', [Some ''https://other.example/x'', Some ''https://other.example/y''])]"

text \<open>Two runs whose only URL cannot be fetched: one in file mode, one in spreadsheet
  mode.\<close>

definition file_run :: env where
  "file_run = \<lparr>USE_SHEETS = False,
               urls_csv = Present (Inr [(''url'', [Some ''https://shop.example/a''])]),
               column_a = Inl APIError,
               sheet_opened = Some APIError,
               http_get = (\<lambda>u. Inl RequestException),
               soup_of = (\<lambda>h. Tag ''[document]'' [] [] [])\<rparr>"

definition sheet_run :: env where
  "sheet_run = \<lparr>USE_SHEETS = True,
                urls_csv = Absent,
                column_a = Inr [''url'', ''https://shop.example/a''],
                sheet_opened = None,
                http_get = (\<lambda>u. Inl RequestException),
                soup_of = (\<lambda>h. Tag ''[document]'' [] [] [])\<rparr>"

section \<open>Properties of the SKU deriver\<close>

lemma derive_manual_skus_append:
  "derive_manual_skus df =
     df @ derived_5l (trigger_qty df ''ACGEL5L'') @ derived_250 (trigger_qty df ''ACGEL250'')"
  by (simp add: derive_manual_skus_def trigger_qty_def derived_5l_def derived_250_def Let_def
           split: list.splits option.splits)

lemma loc_qty_first:
  "\<forall>r\<in>set pre. Code r \<noteq> c \<Longrightarrow> Code a = c \<Longrightarrow>
     loc_qty (pre @ a # post) c = QTY a # loc_qty post c"
  by (simp add: loc_qty_def filter_empty_conv [THEN iffD2])

lemma trigger_qty_first:
  "\<forall>r\<in>set pre. Code r \<noteq> c \<Longrightarrow> Code a = c \<Longrightarrow>
     trigger_qty (pre @ a # post) c = try_parse_int (QTY a)"
  by (simp add: trigger_qty_def loc_qty_first)

lemma trigger_qty_absent:
  "\<forall>r\<in>set df. Code r \<noteq> c \<Longrightarrow> trigger_qty df c = None"
  by (simp add: trigger_qty_def loc_qty_def filter_empty_conv [THEN iffD2])

lemma length_derived_5l: "length (derived_5l p) = (case p of None \<Rightarrow> 0 | Some q \<Rightarrow> 1)"
  by (simp add: derived_5l_def split: option.splits)

lemma length_derived_250: "length (derived_250 p) = (case p of None \<Rightarrow> 0 | Some q \<Rightarrow> 3)"
  by (simp add: derived_250_def split: option.splits)

text \<open>
  C1, as the code has it. The table grows by one row when the first \<open>ACGEL5L\<close> row
  parses and by three rows when the first \<open>ACGEL250\<close> row parses, the two branches being
  independent: the output has 0, 1, 3 or 4 rows more than the input.
\<close>

theorem derive_length:
  "length (derive_manual_skus df) =
     length df + (case trigger_qty df ''ACGEL5L'' of None \<Rightarrow> 0 | Some q \<Rightarrow> 1)
               + (case trigger_qty df ''ACGEL250'' of None \<Rightarrow> 0 | Some q \<Rightarrow> 3)
   \<and> length (derive_manual_skus df)
       \<in> {length df, length df + 1, length df + 3, length df + 4}"
proof -
  have "length (derive_manual_skus df) =
          length df + length (derived_5l (trigger_qty df ''ACGEL5L''))
                    + length (derived_250 (trigger_qty df ''ACGEL250''))"
    by (simp add: derive_manual_skus_append)
  then show ?thesis
    by (simp add: length_derived_5l length_derived_250 split: option.splits)
qed

theorem derive_length_both_triggers:
  "length (derive_manual_skus [\<lparr>Code = ''ACGEL5L'', QTY = PyStr ''12''\<rparr>,
                               \<lparr>Code = ''ACGEL250'', QTY = PyStr ''100''\<rparr>]) = 6"
proof -
  have "trigger_qty [\<lparr>Code = ''ACGEL5L'', QTY = PyStr ''12''\<rparr>,
                     \<lparr>Code = ''ACGEL250'', QTY = PyStr ''100''\<rparr>] ''ACGEL5L'' = Some 12"
       "trigger_qty [\<lparr>Code = ''ACGEL5L'', QTY = PyStr ''12''\<rparr>,
                     \<lparr>Code = ''ACGEL250'', QTY = PyStr ''100''\<rparr>] ''ACGEL250'' = Some 100"
    by code_simp+
  then show ?thesis
    using derive_length [of "[\<lparr>Code = ''ACGEL5L'', QTY = PyStr ''12''\<rparr>,
                               \<lparr>Code = ''ACGEL250'', QTY = PyStr ''100''\<rparr>]"]
    by simp
qed

text \<open>
  C1 as the specification states it (0, 1 or 4 more rows) fails on a table whose only
  trigger row is \<open>ACGEL250\<close> with quantity \<open>100\<close>: three rows are appended.
\<close>

theorem derive_length_three_more:
  "length (derive_manual_skus [\<lparr>Code = ''ACGEL250'', QTY = PyStr ''100''\<rparr>])
     = length [\<lparr>Code = ''ACGEL250'', QTY = PyStr ''100''\<rparr>] + 3
   \<and> length (derive_manual_skus [\<lparr>Code = ''ACGEL250'', QTY = PyStr ''100''\<rparr>])
     \<notin> {length [\<lparr>Code = ''ACGEL250'', QTY = PyStr ''100''\<rparr>],
         length [\<lparr>Code = ''ACGEL250'', QTY = PyStr ''100''\<rparr>] + 1,
         length [\<lparr>Code = ''ACGEL250'', QTY = PyStr ''100''\<rparr>] + 4}"
  by code_simp

text \<open>
  C4, as the code has it. When the first row with code \<open>ACGEL250\<close> has a quantity that
  parses as \<open>q\<close>, the output ends with the three rows \<open>ACGEL250(2)\<close>, \<open>ACGEL250(4)\<close>,
  \<open>ACGEL250(12)\<close> with the quantities \<open>q div 2\<close>, \<open>q div 4\<close>, \<open>q div 12\<close> (floor
  division), after the input rows and the \<open>ACGEL5L+\<close> row if there is one.
\<close>

theorem derive_250_rows:
  assumes "df = pre @ r # post"
    and "\<forall>x\<in>set pre. Code x \<noteq> ''ACGEL250''"
    and "Code r = ''ACGEL250''"
    and "try_parse_int (QTY r) = Some q"
  shows "derive_manual_skus df =
           df @ (case trigger_qty df ''ACGEL5L'' of
                   None \<Rightarrow> []
                 | Some p \<Rightarrow> [\<lparr>Code = ''ACGEL5L+'', QTY = PyInt p\<rparr>])
              @ [\<lparr>Code = ''ACGEL250(2)'', QTY = PyInt (q div 2)\<rparr>,
                 \<lparr>Code = ''ACGEL250(4)'', QTY = PyInt (q div 4)\<rparr>,
                 \<lparr>Code = ''ACGEL250(12)'', QTY = PyInt (q div 12)\<rparr>]"
proof -
  have "trigger_qty df ''ACGEL250'' = Some q"
    using assms by (simp add: trigger_qty_first)
  then show ?thesis
    by (simp add: derive_manual_skus_append derived_250_def derived_5l_def)
qed

text \<open>The quantities 100 and 7 give 50, 25, 8 and 3, 1, 0, printed as the specification
  writes them.\<close>

theorem derive_250_rows_100_and_7:
  "derive_manual_skus [\<lparr>Code = ''ACGEL250'', QTY = PyStr ''100''\<rparr>] =
     [\<lparr>Code = ''ACGEL250'', QTY = PyStr ''100''\<rparr>,
      \<lparr>Code = ''ACGEL250(2)'', QTY = PyInt 50\<rparr>,
      \<lparr>Code = ''ACGEL250(4)'', QTY = PyInt 25\<rparr>,
      \<lparr>Code = ''ACGEL250(12)'', QTY = PyInt 8\<rparr>]
   \<and> derive_manual_skus [\<lparr>Code = ''ACGEL250'', QTY = PyStr ''7''\<rparr>] =
     [\<lparr>Code = ''ACGEL250'', QTY = PyStr ''7''\<rparr>,
      \<lparr>Code = ''ACGEL250(2)'', QTY = PyInt 3\<rparr>,
      \<lparr>Code = ''ACGEL250(4)'', QTY = PyInt 1\<rparr>,
      \<lparr>Code = ''ACGEL250(12)'', QTY = PyInt 0\<rparr>]
   \<and> map py_str [PyInt 50, PyInt 25, PyInt 8, PyInt 3, PyInt 1, PyInt 0]
       = [''50'', ''25'', ''8'', ''3'', ''1'', ''0'']"
proof -
  have p100: "try_parse_int (QTY \<lparr>Code = ''ACGEL250'', QTY = PyStr ''100''\<rparr>) = Some 100"
    by code_simp
  have p7: "try_parse_int (QTY \<lparr>Code = ''ACGEL250'', QTY = PyStr ''7''\<rparr>) = Some 7"
    by code_simp
  have n100: "trigger_qty [\<lparr>Code = ''ACGEL250'', QTY = PyStr ''100''\<rparr>] ''ACGEL5L'' = None"
    by code_simp
  have n7: "trigger_qty [\<lparr>Code = ''ACGEL250'', QTY = PyStr ''7''\<rparr>] ''ACGEL5L'' = None"
    by code_simp
  have printed: "map py_str [PyInt 50, PyInt 25, PyInt 8, PyInt 3, PyInt 1, PyInt 0]
       = [''50'', ''25'', ''8'', ''3'', ''1'', ''0'']"
    by code_simp
  show ?thesis
    using derive_250_rows [of "[\<lparr>Code = ''ACGEL250'', QTY = PyStr ''100''\<rparr>]" "[]"
                         "\<lparr>Code = ''ACGEL250'', QTY = PyStr ''100''\<rparr>" "[]" 100, OF _ _ _ p100]
          derive_250_rows [of "[\<lparr>Code = ''ACGEL250'', QTY = PyStr ''7''\<rparr>]" "[]"
                         "\<lparr>Code = ''ACGEL250'', QTY = PyStr ''7''\<rparr>" "[]" 7, OF _ _ _ p7]
          printed
    by (simp add: n100 n7)
qed

text \<open>
  C4 as the specification states it (some row with code \<open>ACGEL250\<close> parses) fails when
  an earlier row with that code does not parse: the second row of this table has code
  \<open>ACGEL250\<close> and quantity 100, and nothing is appended.
\<close>

theorem derive_250_later_row_ignored:
  "Code ([\<lparr>Code = ''ACGEL250'', QTY = PyStr ''Unknown''\<rparr>,
          \<lparr>Code = ''ACGEL250'', QTY = PyStr ''100''\<rparr>] ! 1) = ''ACGEL250''
   \<and> try_parse_int (QTY ([\<lparr>Code = ''ACGEL250'', QTY = PyStr ''Unknown''\<rparr>,
                          \<lparr>Code = ''ACGEL250'', QTY = PyStr ''100''\<rparr>] ! 1)) = Some 100
   \<and> derive_manual_skus [\<lparr>Code = ''ACGEL250'', QTY = PyStr ''Unknown''\<rparr>,
                         \<lparr>Code = ''ACGEL250'', QTY = PyStr ''100''\<rparr>]
      = [\<lparr>Code = ''ACGEL250'', QTY = PyStr ''Unknown''\<rparr>,
         \<lparr>Code = ''ACGEL250'', QTY = PyStr ''100''\<rparr>]"
  by code_simp

text \<open>
  C5. The input rows are a prefix of the output, unchanged and in their order; with no
  row of code \<open>ACGEL5L\<close> or \<open>ACGEL250\<close> the output is the input.
\<close>

theorem derive_keeps_rows:
  "(\<exists>new. derive_manual_skus df = df @ new)
   \<and> take (length df) (derive_manual_skus df) = df
   \<and> ((\<forall>r\<in>set df. Code r \<noteq> ''ACGEL5L'' \<and> Code r \<noteq> ''ACGEL250'')
        \<longrightarrow> derive_manual_skus df = df)"
proof (intro conjI impI)
  show "\<exists>new. derive_manual_skus df = df @ new"
    by (subst derive_manual_skus_append) blast
  show "take (length df) (derive_manual_skus df) = df"
    by (simp add: derive_manual_skus_append)
next
  assume "\<forall>r\<in>set df. Code r \<noteq> ''ACGEL5L'' \<and> Code r \<noteq> ''ACGEL250''"
  then have "trigger_qty df ''ACGEL5L'' = None" "trigger_qty df ''ACGEL250'' = None"
    by (simp_all add: trigger_qty_absent)
  then show "derive_manual_skus df = df"
    by (simp add: derive_manual_skus_append derived_5l_def derived_250_def)
qed

theorem derive_keeps_rows_plain_table:
  "take 2 (derive_manual_skus [\<lparr>Code = ''ABC123'', QTY = PyStr ''15''\<rparr>,
                               \<lparr>Code = ''XYZ'', QTY = PyStr ''Unknown''\<rparr>])
     = [\<lparr>Code = ''ABC123'', QTY = PyStr ''15''\<rparr>, \<lparr>Code = ''XYZ'', QTY = PyStr ''Unknown''\<rparr>]
   \<and> derive_manual_skus [\<lparr>Code = ''ABC123'', QTY = PyStr ''15''\<rparr>,
                         \<lparr>Code = ''XYZ'', QTY = PyStr ''Unknown''\<rparr>]
     = [\<lparr>Code = ''ABC123'', QTY = PyStr ''15''\<rparr>, \<lparr>Code = ''XYZ'', QTY = PyStr ''Unknown''\<rparr>]"
  using derive_keeps_rows [of "[\<lparr>Code = ''ABC123'', QTY = PyStr ''15''\<rparr>,
                                \<lparr>Code = ''XYZ'', QTY = PyStr ''Unknown''\<rparr>]"]
  by simp

text \<open>
  C8. Among rows that share a trigger code only the first counts: the rows derived for
  \<open>ACGEL5L\<close> (for \<open>ACGEL250\<close>) are those its first row gives, none when that row's
  quantity does not parse, whatever the later rows with the same code hold.
\<close>

theorem derive_first_match:
  "(df = pre @ a # post \<and> (\<forall>r\<in>set pre. Code r \<noteq> ''ACGEL5L'') \<and> Code a = ''ACGEL5L'' \<longrightarrow>
      filter (\<lambda>r. Code r = ''ACGEL5L+'') (drop (length df) (derive_manual_skus df)) =
        (case try_parse_int (QTY a) of
           None \<Rightarrow> []
         | Some q \<Rightarrow> [\<lparr>Code = ''ACGEL5L+'', QTY = PyInt q\<rparr>]))
   \<and> (df = pre' @ b # post' \<and> (\<forall>r\<in>set pre'. Code r \<noteq> ''ACGEL250'') \<and> Code b = ''ACGEL250'' \<longrightarrow>
      filter (\<lambda>r. Code r \<in> set [''ACGEL250(2)'', ''ACGEL250(4)'', ''ACGEL250(12)''])
             (drop (length df) (derive_manual_skus df)) =
        (case try_parse_int (QTY b) of
           None \<Rightarrow> []
         | Some q \<Rightarrow> [\<lparr>Code = ''ACGEL250(2)'', QTY = PyInt (q div 2)\<rparr>,
                      \<lparr>Code = ''ACGEL250(4)'', QTY = PyInt (q div 4)\<rparr>,
                      \<lparr>Code = ''ACGEL250(12)'', QTY = PyInt (q div 12)\<rparr>]))"
proof (intro conjI impI)
  assume "df = pre @ a # post \<and> (\<forall>r\<in>set pre. Code r \<noteq> ''ACGEL5L'') \<and> Code a = ''ACGEL5L''"
  then have "trigger_qty df ''ACGEL5L'' = try_parse_int (QTY a)"
    by (simp add: trigger_qty_first)
  then show "filter (\<lambda>r. Code r = ''ACGEL5L+'') (drop (length df) (derive_manual_skus df)) =
        (case try_parse_int (QTY a) of
           None \<Rightarrow> []
         | Some q \<Rightarrow> [\<lparr>Code = ''ACGEL5L+'', QTY = PyInt q\<rparr>])"
    by (simp add: derive_manual_skus_append derived_5l_def derived_250_def split: option.splits)
next
  assume "df = pre' @ b # post' \<and> (\<forall>r\<in>set pre'. Code r \<noteq> ''ACGEL250'') \<and> Code b = ''ACGEL250''"
  then have "trigger_qty df ''ACGEL250'' = try_parse_int (QTY b)"
    by (simp add: trigger_qty_first)
  then show "filter (\<lambda>r. Code r \<in> set [''ACGEL250(2)'', ''ACGEL250(4)'', ''ACGEL250(12)''])
             (drop (length df) (derive_manual_skus df)) =
        (case try_parse_int (QTY b) of
           None \<Rightarrow> []
         | Some q \<Rightarrow> [\<lparr>Code = ''ACGEL250(2)'', QTY = PyInt (q div 2)\<rparr>,
                      \<lparr>Code = ''ACGEL250(4)'', QTY = PyInt (q div 4)\<rparr>,
                      \<lparr>Code = ''ACGEL250(12)'', QTY = PyInt (q div 12)\<rparr>])"
    by (simp add: derive_manual_skus_append derived_5l_def derived_250_def split: option.splits)
qed

theorem derive_first_match_dup_table:
  "try_parse_int (PyStr ''7'') = Some 7 \<and> try_parse_int (PyStr ''100'') = Some 100
   \<and> filter (\<lambda>r. Code r = ''ACGEL5L+'')
             (drop (length dup_table) (derive_manual_skus dup_table)) = []
   \<and> filter (\<lambda>r. Code r \<in> set [''ACGEL250(2)'', ''ACGEL250(4)'', ''ACGEL250(12)''])
             (drop (length dup_table) (derive_manual_skus dup_table)) = []
   \<and> derive_manual_skus dup_table = dup_table"
proof -
  have u: "int_of_str ''Unknown'' = None"
    by code_simp
  have "filter (\<lambda>r. Code r = ''ACGEL5L+'')
               (drop (length dup_table) (derive_manual_skus dup_table)) = []
   \<and> filter (\<lambda>r. Code r \<in> set [''ACGEL250(2)'', ''ACGEL250(4)'', ''ACGEL250(12)''])
             (drop (length dup_table) (derive_manual_skus dup_table)) = []"
    using derive_first_match [of dup_table "[]" "\<lparr>Code = ''ACGEL5L'', QTY = PyStr ''Unknown''\<rparr>"
        "[\<lparr>Code = ''ACGEL5L'', QTY = PyStr ''7''\<rparr>,
          \<lparr>Code = ''ACGEL250'', QTY = PyStr ''Unknown''\<rparr>,
          \<lparr>Code = ''ACGEL250'', QTY = PyStr ''100''\<rparr>]"
        "[\<lparr>Code = ''ACGEL5L'', QTY = PyStr ''Unknown''\<rparr>,
          \<lparr>Code = ''ACGEL5L'', QTY = PyStr ''7''\<rparr>]"
        "\<lparr>Code = ''ACGEL250'', QTY = PyStr ''Unknown''\<rparr>"
        "[\<lparr>Code = ''ACGEL250'', QTY = PyStr ''100''\<rparr>]"]
    by (simp add: dup_table_def u)
  moreover have "try_parse_int (PyStr ''7'') = Some 7" "try_parse_int (PyStr ''100'') = Some 100"
    by code_simp+
  moreover have "derive_manual_skus dup_table = dup_table"
    by code_simp
  ultimately show ?thesis by simp
qed

section \<open>Properties of the row extractor\<close>

subsection \<open>The code of a cell\<close>

lemma py_split1_first: "\<exists>t. py_split1 sep s = takeWhile (\<lambda>c. c \<noteq> sep) s # t"
  by (induction s) auto

lemma code_of_text_takeWhile: "code_of_text s = takeWhile (\<lambda>c. c \<noteq> CHR '' '') s"
proof -
  obtain t where "py_split1 CHR '' '' s = takeWhile (\<lambda>c. c \<noteq> CHR '' '') s # t"
    using py_split1_first by blast
  then show ?thesis by (simp add: code_of_text_def)
qed

text \<open>A stripped string does not start with white space.\<close>

lemma py_strip_Cons:
  assumes "dropWhile py_isspace s = x # t"
  shows "\<exists>u. py_strip s = x # u"
proof -
  have nx: "\<not> py_isspace x"
    using assms by (metis hd_dropWhile list.distinct(1) list.sel(1))
  have "dropWhile py_isspace (rev t @ [x]) = dropWhile py_isspace (rev t) @ [x]"
    using nx by (simp add: dropWhile_append3)
  then show ?thesis
    using assms by (simp add: py_strip_def)
qed

lemma py_strip_head: "py_strip s \<noteq> [] \<Longrightarrow> \<not> py_isspace (hd (py_strip s))"
proof (cases "dropWhile py_isspace s")
  case Nil
  then show "py_strip s \<noteq> [] \<Longrightarrow> ?thesis" by (simp add: py_strip_def)
next
  case (Cons x t)
  then obtain u where "py_strip s = x # u" using py_strip_Cons by blast
  moreover have "\<not> py_isspace x"
    using Cons by (metis hd_dropWhile list.distinct(1) list.sel(1))
  ultimately show ?thesis by simp
qed

lemma concat_nonempty_head:
  "concat (filter (\<lambda>s. s \<noteq> []) xs) \<noteq> [] \<Longrightarrow>
     \<exists>x\<in>set xs. x \<noteq> [] \<and> hd (concat (filter (\<lambda>s. s \<noteq> []) xs)) = hd x"
proof (induction xs)
  case Nil
  then show ?case by simp
next
  case (Cons a xs)
  show ?case
  proof (cases "a = []")
    case True
    with Cons show ?thesis by auto
  next
    case False
    then show ?thesis by simp
  qed
qed

lemma get_text_strip_head:
  assumes "get_text_strip n \<noteq> []"
  shows "\<not> py_isspace (hd (get_text_strip n))"
proof -
  obtain x where x: "x \<in> set (map py_strip (all_strings (descendants n)))" "x \<noteq> []"
      "hd (get_text_strip n) = hd x"
    using concat_nonempty_head [of "map py_strip (all_strings (descendants n))"] assms
    unfolding get_text_strip_def by blast
  then obtain s where "x = py_strip s" by auto
  with x show ?thesis using py_strip_head by simp
qed

lemma space_isspace: "py_isspace CHR '' ''"
  by (simp add: py_isspace_def)

lemma first_token_empty_iff:
  "takeWhile (\<lambda>c. c \<noteq> CHR '' '') (get_text_strip n) = [] \<longleftrightarrow> get_text_strip n = []"
proof
  assume e: "takeWhile (\<lambda>c. c \<noteq> CHR '' '') (get_text_strip n) = []"
  show "get_text_strip n = []"
  proof (rule ccontr)
    assume ne: "get_text_strip n \<noteq> []"
    then obtain x t where xt: "get_text_strip n = x # t"
      by (cases "get_text_strip n") auto
    with get_text_strip_head [OF ne] have "x \<noteq> CHR '' ''"
      using space_isspace by auto
    with xt e show False by simp
  qed
next
  assume "get_text_strip n = []"
  then show "takeWhile (\<lambda>c. c \<noteq> CHR '' '') (get_text_strip n) = []" by simp
qed

lemma group_rows_first_token:
  assumes "i < length columns"
  shows "group_rows columns i =
     (if takeWhile (\<lambda>c. c \<noteq> CHR '' '') (get_text_strip (columns ! i)) = [] then []
      else [\<lparr>Code = takeWhile (\<lambda>c. c \<noteq> CHR '' '') (get_text_strip (columns ! i)),
             QTY = PyStr (max_quantity columns i)\<rparr>])"
  using assms by (simp add: group_rows_def Let_def code_of_text_takeWhile)

subsection \<open>The loop over the groups\<close>

lemma group_loop_short:
  assumes "length columns < 5"
  shows "group_loop columns 0 = (if columns = [] then [] else group_rows columns 0)"
proof (cases "columns = []")
  case True
  then show ?thesis by (simp add: group_loop.simps)
next
  case False
  then have "group_loop columns 0 = group_rows columns 0 @ group_loop columns 5"
    by (subst group_loop.simps) simp
  moreover have "group_loop columns 5 = []"
    using assms by (subst group_loop.simps) simp
  ultimately show ?thesis using False by simp
qed

lemma group_loop_unfold:
  "group_loop columns (5 * k) =
     concat (map (\<lambda>j. group_rows columns (5 * j)) [k..<(length columns + 4) div 5])"
proof (induction "(length columns + 4) div 5 - k" arbitrary: k)
  case 0
  then have "\<not> 5 * k < length columns" by linarith
  moreover have "[k..<(length columns + 4) div 5] = []" using 0 by simp
  ultimately show ?case by (simp add: group_loop.simps)
next
  case (Suc m)
  then have lt: "k < (length columns + 4) div 5" by linarith
  then have inside: "5 * k < length columns" by linarith
  have "(length columns + 4) div 5 - Suc k = m" using Suc.hyps(2) by linarith
  then have "group_loop columns (5 * Suc k) =
     concat (map (\<lambda>j. group_rows columns (5 * j)) [Suc k..<(length columns + 4) div 5])"
    using Suc.hyps(1) [of "Suc k"] by simp
  then have next_groups: "group_loop columns (5 * k + 5) =
     concat (map (\<lambda>j. group_rows columns (5 * j)) [Suc k..<(length columns + 4) div 5])"
    by (simp add: add.commute)
  have "group_loop columns (5 * k) = group_rows columns (5 * k) @ group_loop columns (5 * k + 5)"
    using inside by (subst group_loop.simps) simp
  then show ?case
    using lt next_groups by (simp add: upt_conv_Cons)
qed

lemma codes_of_groups:
  assumes "\<forall>k\<in>set ks. 5 * k < length columns"
  shows "map Code (concat (map (\<lambda>j. group_rows columns (5 * j)) ks)) =
         filter (\<lambda>code. code \<noteq> [])
           (map (\<lambda>k. takeWhile (\<lambda>c. c \<noteq> CHR '' '') (get_text_strip (columns ! (5 * k)))) ks)"
  using assms by (induction ks) (simp_all add: group_rows_first_token)

text \<open>
  C2, as the code has it. The loop also runs on a last, incomplete group, so a
  container with fewer than five columns gives at most one row: none when it has no
  column or its first column has no text, and otherwise one row with the first column's
  code, whose quantity is \<open>Unknown\<close> unless there is a fourth column to read it from.
\<close>

theorem short_container_rows:
  assumes "length (row_columns row) < 5"
  shows "container_rows row =
           (if row_columns row = [] \<or> get_text_strip (row_columns row ! 0) = [] then []
            else [\<lparr>Code = takeWhile (\<lambda>c. c \<noteq> CHR '' '') (get_text_strip (row_columns row ! 0)),
                   QTY = PyStr (if length (row_columns row) = 4
                                then max_quantity (row_columns row) 0 else ''Unknown'')\<rparr>])"
proof (cases "row_columns row = []")
  case True
  then show ?thesis by (simp add: container_rows_def group_loop.simps)
next
  case False
  then have pos: "0 < length (row_columns row)" by simp
  have few: "length (row_columns row) \<noteq> 4 \<Longrightarrow> max_quantity (row_columns row) 0 = ''Unknown''"
    using assms by (simp add: max_quantity_def)
  have "container_rows row = group_rows (row_columns row) 0"
    using assms False by (simp add: container_rows_def group_loop_short)
  then show ?thesis
    using False few first_token_empty_iff [of "row_columns row ! 0"]
    by (simp add: group_rows_first_token [OF pos])
qed

theorem short_container_rows_three_columns:
  "length (row_columns three_columns) < 5
   \<and> container_rows three_columns = [\<lparr>Code = ''ABC123'', QTY = PyStr ''Unknown''\<rparr>]"
proof -
  have cols: "row_columns three_columns
                = [text_column ''ABC123 Widget'', text_column ''Blue'', text_column ''1 L'']"
    by code_simp
  have cell_text: "get_text_strip (text_column ''ABC123 Widget'') = ''ABC123 Widget''"
    by code_simp
  have few: "length (row_columns three_columns) < 5"
    by (simp add: cols)
  show ?thesis
    using short_container_rows [OF few] by (simp add: cols cell_text)
qed

text \<open>
  C2 as the specification states it fails on a page whose one container holds exactly
  three columns: the extractor returns a row for it.
\<close>

theorem three_columns_yield_a_row:
  "is_container three_columns
   \<and> length (row_columns three_columns) = 3
   \<and> parse_stock_rows (document [three_columns]) = [\<lparr>Code = ''ABC123'', QTY = PyStr ''Unknown''\<rparr>]"
  by code_simp

text \<open>
  C3, as the code has it. The text of slot \<open>i\<close> is what \<^verbatim>\<open>get_text(strip=True)\<close>
  gives (every text node stripped on its own, the empty ones dropped, the others joined
  without a separator); the code is that text up to its first space character, other
  white space not ending it; the group gives a row exactly when the code is not empty.
  Over the whole loop, the codes emitted are the non-empty codes of slots 0, 5, 10, ...
  in that order.
\<close>

theorem group_code_first_token:
  "(i < length columns \<longrightarrow>
      group_rows columns i =
        (if takeWhile (\<lambda>c. c \<noteq> CHR '' '') (get_text_strip (columns ! i)) = [] then []
         else [\<lparr>Code = takeWhile (\<lambda>c. c \<noteq> CHR '' '') (get_text_strip (columns ! i)),
                QTY = PyStr (max_quantity columns i)\<rparr>]))
   \<and> map Code (group_loop columns 0) =
       filter (\<lambda>code. code \<noteq> [])
         (map (\<lambda>k. takeWhile (\<lambda>c. c \<noteq> CHR '' '') (get_text_strip (columns ! (5 * k))))
              [0..<(length columns + 4) div 5])"
proof (intro conjI impI)
  assume "i < length columns"
  then show "group_rows columns i =
        (if takeWhile (\<lambda>c. c \<noteq> CHR '' '') (get_text_strip (columns ! i)) = [] then []
         else [\<lparr>Code = takeWhile (\<lambda>c. c \<noteq> CHR '' '') (get_text_strip (columns ! i)),
                QTY = PyStr (max_quantity columns i)\<rparr>])"
    by (rule group_rows_first_token)
next
  have "\<forall>k\<in>set [0..<(length columns + 4) div 5]. 5 * k < length columns"
    by auto
  then show "map Code (group_loop columns 0) =
       filter (\<lambda>code. code \<noteq> [])
         (map (\<lambda>k. takeWhile (\<lambda>c. c \<noteq> CHR '' '') (get_text_strip (columns ! (5 * k))))
              [0..<(length columns + 4) div 5])"
    using group_loop_unfold [of columns 0] by (simp add: codes_of_groups)
qed

theorem group_code_first_token_five_columns:
  "0 < length five_columns
   \<and> group_rows five_columns 0 = [\<lparr>Code = ''ABC123'', QTY = PyStr ''15''\<rparr>]
   \<and> map Code (group_loop five_columns 0) = [''ABC123'']"
proof -
  have len: "length five_columns = 5"
    by code_simp
  have cell_text: "get_text_strip (five_columns ! 0) = ''ABC123 Widget''"
    by code_simp
  have qty: "max_quantity five_columns 0 = ''15''"
    by code_simp
  have range: "[0..<(length five_columns + 4) div 5] = [0]"
    by (simp add: len)
  show ?thesis
    using group_code_first_token [of 0 five_columns, unfolded range]
    by (simp add: len cell_text qty)
qed

text \<open>
  C3 as the specification states it (the code ends at the first white-space character)
  fails on a cell whose text is \<open>ABC123\<close>, a line feed, \<open>Widget\<close>: the code emitted keeps
  the line feed and the word after it.
\<close>

theorem newline_does_not_end_code:
  "map Code (group_rows [newline_cell] 0) = [''ABC123'' @ [CHR 0x0A] @ ''Widget'']
   \<and> spec_code newline_cell = ''ABC123''
   \<and> map Code (group_rows [newline_cell] 0) \<noteq> [spec_code newline_cell]"
  by code_simp

text \<open>Each text node is stripped on its own, so the blank between two elements does
  not separate their texts: the code of this cell is \<open>ABC123Widget\<close>.\<close>

lemma separate_text_nodes_are_joined:
  "get_text_strip split_cell = ''ABC123Widget''
   \<and> map Code (group_rows [split_cell] 0) = [''ABC123Widget'']
   \<and> spec_code split_cell = ''ABC123''"
  by code_simp

section \<open>Properties of the URL source\<close>

lemma column_tolist_unique:
  assumes "distinct (map fst df)" and "(c, s) \<in> set df"
  shows "column_tolist df c = Inr (dropna s)"
proof -
  have "filter (\<lambda>col. fst col = c) df = [(c, s)]"
    using assms
  proof (induction df)
    case Nil
    then show ?case by simp
  next
    case (Cons col df)
    show ?case
    proof (cases "col = (c, s)")
      case True
      then have "c \<notin> fst ` set df" using Cons.prems(1) by simp
      then have "filter (\<lambda>col. fst col = c) df = []"
        by (auto simp: filter_empty_conv)
      with True show ?thesis by simp
    next
      case False
      then have mem: "(c, s) \<in> set df" using Cons.prems(2) by simp
      then have "c \<in> fst ` set df" by force
      then have "fst col \<noteq> c" using Cons.prems(1) by auto
      then show ?thesis using Cons.IH Cons.prems(1) mem by simp
    qed
  qed
  then show ?thesis by (simp add: column_tolist_def)
qed

text \<open>The column the function reads is the leftmost one whose name matches.\<close>

lemma get_urls_leftmost:
  assumes "df = pre @ (c, s) # post"
    and "\<forall>col\<in>set pre. \<not> is_url_column (fst col)"
    and "is_url_column c"
    and "distinct (map fst df)"
  shows "get_urls_from_local_csv (Present (Inr df)) = Inr (dropna s)"
proof -
  have "filter is_url_column (map fst pre) = []"
    using assms(2) by (auto simp: filter_empty_conv)
  then have "filter is_url_column (map fst df) = c # filter is_url_column (map fst post)"
    using assms(1,3) by simp
  moreover have "column_tolist df c = Inr (dropna s)"
    using assms(1,4) by (intro column_tolist_unique) simp_all
  ultimately show ?thesis
    by (simp add: get_urls_from_local_csv_def)
qed

text \<open>
  C7, as the code has it. The function returns the empty list, without an error, when
  the file is absent and when the file was read and none of its columns is named
  \<open>url\<close> up to case and surrounding white space; when exactly one column is so named it
  returns that column's cells that are not missing, in row order. (A file that is
  there but cannot be read is the reader's error, which the function lets through.)
\<close>

theorem get_urls_local_empty_or_column:
  "get_urls_from_local_csv Absent = Inr []
   \<and> (url_columns (Present (Inr df)) = [] \<longrightarrow> get_urls_from_local_csv (Present (Inr df)) = Inr [])
   \<and> (distinct (map fst df) \<and> filter (\<lambda>col. is_url_column (fst col)) df = [(c, s)]
        \<longrightarrow> get_urls_from_local_csv (Present (Inr df)) = Inr (dropna s))"
proof (intro conjI impI)
  show "get_urls_from_local_csv Absent = Inr []"
    by (simp add: get_urls_from_local_csv_def)
next
  assume "url_columns (Present (Inr df)) = []"
  then show "get_urls_from_local_csv (Present (Inr df)) = Inr []"
    by (simp add: get_urls_from_local_csv_def)
next
  assume a: "distinct (map fst df) \<and> filter (\<lambda>col. is_url_column (fst col)) df = [(c, s)]"
  then obtain pre post where split: "df = pre @ (c, s) # post"
      and pre: "\<forall>col\<in>set pre. \<not> is_url_column (fst col)" and c: "is_url_column (fst (c, s))"
    unfolding filter_eq_Cons_iff by blast
  then show "get_urls_from_local_csv (Present (Inr df)) = Inr (dropna s)"
    using a by (intro get_urls_leftmost [OF split pre]) simp_all
qed

theorem get_urls_local_samples:
  "url_columns (Present (Inr link_frame)) = []
   \<and> get_urls_from_local_csv (Present (Inr link_frame)) = Inr []
   \<and> get_urls_from_local_csv (Present (Inr one_url_frame))
       = Inr [''https://shop.example/a'', ''https://shop.example/c'']"
proof -
  have none: "filter is_url_column (map fst link_frame) = []"
    by code_simp
  have names: "distinct (map fst one_url_frame)"
    by code_simp
  have one: "filter (\<lambda>col. is_url_column (fst col)) one_url_frame
               = [('' URL '', [Some ''https://shop.example/a'', None, Some ''https://shop.example/c''])]"
    by code_simp
  show ?thesis
    using get_urls_local_empty_or_column [of link_frame]
          get_urls_local_empty_or_column [of one_url_frame "'' URL ''"
            "[Some ''https://shop.example/a'', None, Some ''https://shop.example/c'']"]
    by (simp add: none names one)
qed

text \<open>
  C7 as the specification states it fails on a file that is there but has no content:
  no column is named \<open>url\<close>, and the reader's \<^verbatim>\<open>EmptyDataError\<close> comes out of the
  function instead of the empty list.
\<close>

theorem get_urls_local_unreadable_file:
  "url_columns (Present (Inl EmptyDataError)) = []
   \<and> get_urls_from_local_csv (Present (Inl EmptyDataError)) = Inl EmptyDataError
   \<and> get_urls_from_local_csv (Present (Inl EmptyDataError)) \<noteq> Inr []"
  by (simp add: get_urls_from_local_csv_def)

text \<open>
  C9. When a column named \<open>url\<close> (up to case and white space) is followed by another
  such column, the function returns the cells of the first one, the leftmost, and
  nothing of the others. The names of a frame read from a file are distinct.
\<close>

theorem get_urls_local_leftmost_column:
  assumes "df = pre @ (c, s) # post"
    and "\<forall>col\<in>set pre. \<not> is_url_column (fst col)"
    and "is_url_column c"
    and "\<exists>col\<in>set post. is_url_column (fst col)"
    and "distinct (map fst df)"
  shows "get_urls_from_local_csv (Present (Inr df)) = Inr (dropna s)"
  using assms(1,2,3,5) by (rule get_urls_leftmost)

theorem get_urls_local_two_url_columns:
  "length (url_columns (Present (Inr two_url_frame))) = 2
   \<and> get_urls_from_local_csv (Present (Inr two_url_frame)) = Inr [''https://shop.example/a'']"
proof -
  have split: "two_url_frame =
      [(''name'', [Some ''a'', Some ''b''])]
      @ (''Url'', [Some ''https://shop.example/a'', None])
      # [(''url '', [Some ''https://other.example/x'', Some ''https://other.example/y''])]"
    by (simp add: two_url_frame_def)
  have pre: "\<forall>col\<in>set [(''name'', [Some ''a'', Some ''b''])]. \<not> is_url_column (fst col)"
    by code_simp
  have first: "is_url_column ''Url''"
    by code_simp
  have other: "\<exists>col\<in>set [(''url '', [Some ''https://other.example/x'', Some ''https://other.example/y''])].
                 is_url_column (fst col)"
    by code_simp
  have names: "distinct (map fst two_url_frame)"
    by code_simp
  have two: "length (url_columns (Present (Inr two_url_frame))) = 2"
    by code_simp
  show ?thesis
    using get_urls_local_leftmost_column [OF split pre first other names] two by simp
qed

section \<open>Properties of the output sink\<close>

lemma zip_code_qty:
  "zip (map Code df) (map (\<lambda>r. py_str (QTY r)) df) = map (\<lambda>r. (Code r, py_str (QTY r))) df"
  by (induction df) simp_all

text \<open>
  C6. On an opened worksheet the first call clears \<open>B2:B\<close> and \<open>C2:C\<close>. For an empty
  table that is the only call; for a table with rows it is followed by the write of
  the header and the codes into column B, the write of the header and the quantities
  into column C, and the bold format of \<open>B1:C1\<close>, in this order and nothing else.
\<close>

theorem sheets_clear_then_write:
  "write_to_google_sheets None df =
     Inr (BatchClear [''B2:B'', ''C2:C'']
          # (if df = [] then []
             else [Update (''B1:B'' @ py_str_nat (Suc (length df)))
                          ([''Code''] # map (\<lambda>r. [Code r]) df),
                   Update (''C1:C'' @ py_str_nat (Suc (length df)))
                          ([''QTY''] # map (\<lambda>r. [py_str (QTY r)]) df),
                   FormatBold ''B1:C1'']))"
  by (simp add: write_to_google_sheets_def zip_code_qty Let_def comp_def)

theorem sheets_clear_then_write_samples:
  "write_to_google_sheets None [] = Inr [BatchClear [''B2:B'', ''C2:C'']]
   \<and> write_to_google_sheets None [\<lparr>Code = ''ABC123'', QTY = PyStr ''15''\<rparr>,
                                   \<lparr>Code = ''ACGEL250(2)'', QTY = PyInt 50\<rparr>]
      = Inr [BatchClear [''B2:B'', ''C2:C''],
             Update ''B1:B3'' [[''Code''], [''ABC123''], [''ACGEL250(2)'']],
             Update ''C1:C3'' [[''QTY''], [''15''], [''50'']],
             FormatBold ''B1:C1'']"
proof -
  have three: "py_str_nat (Suc (Suc (Suc 0))) = ''3''" and fifty: "py_str_int 50 = ''50''"
    by code_simp+
  show ?thesis
    using sheets_clear_then_write [of "[]"]
          sheets_clear_then_write [of "[\<lparr>Code = ''ABC123'', QTY = PyStr ''15''\<rparr>,
                                        \<lparr>Code = ''ACGEL250(2)'', QTY = PyInt 50\<rparr>]"]
    by (simp add: three fifty)
qed

section \<open>Properties of the run\<close>

text \<open>
  C10. In file mode, a run that found URLs and ends with an empty table still writes
  the output file: the header \<open>Code\<close>, \<open>QTY\<close> and no record. In spreadsheet mode the
  same run makes the clearing call only.
\<close>

theorem empty_table_output:
  "(\<not> USE_SHEETS e \<and> get_urls_from_local_csv (urls_csv e) = Inr urls \<and> urls \<noteq> []
      \<and> derive_manual_skus (scrape e urls) = []
     \<longrightarrow> main e = Inr (WroteCsv \<lparr>header = [''Code'', ''QTY''], records = []\<rparr>))
   \<and> (USE_SHEETS e \<and> get_urls_from_google_sheets (column_a e) = Inr urls \<and> urls \<noteq> []
      \<and> derive_manual_skus (scrape e urls) = [] \<and> sheet_opened e = None
     \<longrightarrow> main e = Inr (UpdatedSheet [BatchClear [''B2:B'', ''C2:C'']]))"
  by (simp add: main_def to_csv_def write_to_google_sheets_def Let_def)

theorem empty_table_output_runs:
  "main file_run = Inr (WroteCsv \<lparr>header = [''Code'', ''QTY''], records = []\<rparr>)
   \<and> main sheet_run = Inr (UpdatedSheet [BatchClear [''B2:B'', ''C2:C'']])"
proof -
  have f1: "\<not> USE_SHEETS file_run" and f2: "USE_SHEETS sheet_run" and f3: "sheet_opened sheet_run = None"
    by (simp_all add: file_run_def sheet_run_def)
  have u1: "get_urls_from_local_csv (urls_csv file_run) = Inr [''https://shop.example/a'']"
    by code_simp
  have u2: "get_urls_from_google_sheets (column_a sheet_run) = Inr [''https://shop.example/a'']"
    by code_simp
  have t1: "derive_manual_skus (scrape file_run [''https://shop.example/a'']) = []"
    by code_simp
  have t2: "derive_manual_skus (scrape sheet_run [''https://shop.example/a'']) = []"
    by code_simp
  have "main file_run = Inr (WroteCsv \<lparr>header = [''Code'', ''QTY''], records = []\<rparr>)"
    by (rule empty_table_output [of file_run "[''https://shop.example/a'']", THEN conjunct1, THEN mp])
       (intro conjI f1 u1 t1, simp)
  moreover have "main sheet_run = Inr (UpdatedSheet [BatchClear [''B2:B'', ''C2:C'']])"
    by (rule empty_table_output [of sheet_run "[''https://shop.example/a'']", THEN conjunct2, THEN mp])
       (intro conjI f2 u2 t2 f3, simp)
  ultimately show ?thesis by simp
qed

end
